theory Spec2Isabelle
  imports Complex_Main "HOL-Library.Word" "HOL-Library.Multiset"
begin

section \<open>The Go library functions the program calls\<close>

text \<open>
  The program is one file, \<^verbatim>\<open>main.go\<close>. Go's \<^verbatim>\<open>int\<close> is a 64-bit two's complement
  integer on the platforms the scraper runs on; \<open>+\<close> wraps around. A Go \<^verbatim>\<open>string\<close> is a
  sequence of bytes, as \<^typ>\<open>string\<close> is here.
\<close>

type_synonym go_int = "64 word"

subsection \<open>Package strings\<close>

text \<open>
  \<^verbatim>\<open>strings.ToLower\<close> on the ASCII letters: \<^verbatim>\<open>'A'..'Z'\<close> get bit 5 set
  (\<^verbatim>\<open>c + 'a' - 'A'\<close>). Bytes outside that range are kept as they are; Go also maps the
  upper-case letters beyond ASCII, which the labels the program looks for do not contain.
\<close>

definition lower_byte :: "char \<Rightarrow> char" where
  "lower_byte c =
     (if 65 \<le> (of_char c :: nat) \<and> (of_char c :: nat) \<le> 90
      then (case c of Char b0 b1 b2 b3 b4 b5 b6 b7 \<Rightarrow> Char b0 b1 b2 b3 b4 True b6 b7)
      else c)"

definition ToLower :: "string \<Rightarrow> string" where
  "ToLower s = map lower_byte s"

fun HasPrefix :: "string \<Rightarrow> string \<Rightarrow> bool" where
  "HasPrefix s [] = True"
| "HasPrefix [] (p # ps) = False"
| "HasPrefix (c # cs) (p # ps) = (c = p \<and> HasPrefix cs ps)"

text \<open>\<^verbatim>\<open>strings.Contains(s, substr)\<close>: \<open>substr\<close> starts at some position of \<open>s\<close>.\<close>

fun Contains :: "string \<Rightarrow> string \<Rightarrow> bool" where
  "Contains [] sub = (sub = [])"
| "Contains (c # cs) sub = (if HasPrefix (c # cs) sub then True else Contains cs sub)"

text \<open>
  \<^verbatim>\<open>strings.Split(s, sep)\<close> and \<^verbatim>\<open>strings.ReplaceAll(s, old, new)\<close> for a separator of
  one byte, which is how every call of the program uses them (\<^verbatim>\<open>":"\<close>, \<^verbatim>\<open>"/"\<close>,
  \<^verbatim>\<open>"$"\<close>, \<^verbatim>\<open>","\<close>, \<^verbatim>\<open>"-"\<close>). \<open>Split\<close> of the empty string is one empty field.
\<close>

fun Split :: "string \<Rightarrow> char \<Rightarrow> string list" where
  "Split [] sep = [[]]"
| "Split (c # cs) sep =
     (if c = sep then [] # Split cs sep
      else (case Split cs sep of [] \<Rightarrow> [[c]] | p # ps \<Rightarrow> (c # p) # ps))"

definition ReplaceAll :: "string \<Rightarrow> char \<Rightarrow> string \<Rightarrow> string" where
  "ReplaceAll s old new = concat (map (\<lambda>c. if c = old then new else [c]) s)"

text \<open>\<^verbatim>\<open>strings.Trim(s, cutset)\<close> for a cutset of ASCII bytes.\<close>

definition Trim :: "string \<Rightarrow> string \<Rightarrow> string" where
  "Trim s cutset =
     rev (dropWhile (\<lambda>c. c \<in> set cutset) (rev (dropWhile (\<lambda>c. c \<in> set cutset) s)))"

text \<open>
  \<^verbatim>\<open>strings.TrimSpace\<close> on the ASCII white space \<^verbatim>\<open>\t \n \v \f \r\<close> and the blank
  (bytes 9 to 13 and 32).
\<close>

definition is_space :: "char \<Rightarrow> bool" where
  "is_space c = ((9 \<le> (of_char c :: nat) \<and> (of_char c :: nat) \<le> 13) \<or> (of_char c :: nat) = 32)"

definition TrimSpace :: "string \<Rightarrow> string" where
  "TrimSpace s = rev (dropWhile is_space (rev (dropWhile is_space s)))"

subsection \<open>Package strconv\<close>

text \<open>
  \<^verbatim>\<open>strconv.Atoi(s)\<close> is \<^verbatim>\<open>ParseInt(s, 10, 0)\<close>: an optional sign, then decimal digits
  read from the left into a 64-bit unsigned accumulator. A byte that is not a digit ends
  the scan with value 0 and \<^verbatim>\<open>ErrSyntax\<close>; an accumulator that overflows ends it with
  the largest value and \<^verbatim>\<open>ErrRange\<close>, and the signed result is then clamped to
  \<open>2^63 - 1\<close> or \<open>-2^63\<close>. The program always discards the error and keeps the value.
\<close>

datatype num_error = ErrSyntax | ErrRange

definition is_digit :: "char \<Rightarrow> bool" where
  "is_digit c = (48 \<le> (of_char c :: nat) \<and> (of_char c :: nat) \<le> 57)"

definition digit_val :: "char \<Rightarrow> nat" where
  "digit_val c = of_char c - 48"

definition maxUint64 :: nat where
  "maxUint64 = 2 ^ 64 - 1"

fun ParseUint_loop :: "nat \<Rightarrow> string \<Rightarrow> nat \<times> num_error option" where
  "ParseUint_loop n [] = (n, None)"
| "ParseUint_loop n (c # cs) =
     (if \<not> is_digit c then (0, Some ErrSyntax)
      else if maxUint64 div 10 + 1 \<le> n then (maxUint64, Some ErrRange)
      else if maxUint64 < n * 10 + digit_val c then (maxUint64, Some ErrRange)
      else ParseUint_loop (n * 10 + digit_val c) cs)"

definition ParseUint :: "string \<Rightarrow> nat \<times> num_error option" where
  "ParseUint s = (if s = [] then (0, Some ErrSyntax) else ParseUint_loop 0 s)"

definition ParseInt :: "string \<Rightarrow> go_int \<times> num_error option" where
  "ParseInt s =
     (if s = [] then (0, Some ErrSyntax)
      else
        let neg = (hd s = CHR ''-'');
            digits = (if hd s = CHR ''+'' \<or> hd s = CHR ''-'' then tl s else s);
            un = fst (ParseUint digits);
            err = snd (ParseUint digits)
        in if err = Some ErrSyntax then (0, err)
           else if \<not> neg \<and> 2 ^ 63 \<le> un then (of_nat (2 ^ 63 - 1), Some ErrRange)
           else if neg \<and> 2 ^ 63 < un then (- of_nat (2 ^ 63), Some ErrRange)
           else (if neg then - of_nat un else of_nat un, None))"

definition Atoi :: "string \<Rightarrow> go_int \<times> num_error option" where
  "Atoi s = ParseInt s"

text \<open>\<^verbatim>\<open>strconv.Itoa\<close>: the decimal digits, with a minus sign for a negative number.\<close>

function digits_of :: "nat \<Rightarrow> string" where
  "digits_of n =
     (if n < 10 then [''0123456789'' ! n]
      else digits_of (n div 10) @ [''0123456789'' ! (n mod 10)])"
  by pat_completeness auto
termination
  by (relation "measure (\<lambda>n. n)") auto

definition Itoa :: "go_int \<Rightarrow> string" where
  "Itoa n = (if sint n < 0 then CHR ''-'' # digits_of (nat (- sint n)) else digits_of (nat (sint n)))"

subsection \<open>float64\<close>

text \<open>
  The arithmetic of \<^verbatim>\<open>float64\<close> is a parameter of the model: a record of the operations
  the program uses, over any carrier \<open>'f\<close>. Every theorem below holds for every such
  record, so for IEEE 754 binary64 with its rounding, infinities and NaN in particular.
  \<^verbatim>\<open>strconv.ParseFloat\<close> returns a value and an error; the program keeps the value, which
  is 0 after a syntax error and an infinity after a range error.
\<close>

datatype 'f parse_result = Parsed 'f | SyntaxError | RangeError 'f

record 'f float64_ops =
  f_zero :: 'f
  f_of_int :: "go_int \<Rightarrow> 'f"
  f_add :: "'f \<Rightarrow> 'f \<Rightarrow> 'f"
  f_sub :: "'f \<Rightarrow> 'f \<Rightarrow> 'f"
  f_mul :: "'f \<Rightarrow> 'f \<Rightarrow> 'f"
  f_div :: "'f \<Rightarrow> 'f \<Rightarrow> 'f"
  f_gt :: "'f \<Rightarrow> 'f \<Rightarrow> bool"
  f_round :: "'f \<Rightarrow> 'f"
  f_to_int :: "'f \<Rightarrow> go_int"
  ParseFloat :: "string \<Rightarrow> 'f parse_result"
  Sprintf_2f :: "'f \<Rightarrow> string"

definition value_of :: "'f float64_ops \<Rightarrow> 'f parse_result \<Rightarrow> 'f" where
  "value_of ops r = (case r of Parsed x \<Rightarrow> x | SyntaxError \<Rightarrow> f_zero ops | RangeError x \<Rightarrow> x)"

section \<open>Data model\<close>

record PrizeTier =
  Value :: go_int
  OriginalCount :: go_int
  RemainingCount :: go_int

record 'f Game =
  Name :: string
  Price :: go_int
  Odds :: 'f
  LaunchDate :: string
  GameNumber :: go_int
  PrizeTiers :: "PrizeTier list"
  TotalOriginalPrizes :: go_int
  TotalRemainingPrizes :: go_int
  URL :: string

text \<open>
  How the process can die: \<^verbatim>\<open>log.Fatal\<close> (the message is logged, exit status 1) and a
  run-time panic (an index or a slice bound out of range), which in any goroutine ends
  the whole process.
\<close>

datatype crash = Fatal string | Panic

section \<open>Parsing cells\<close>

definition parseDollar :: "string \<Rightarrow> go_int" where
  "parseDollar s = fst (Atoi (ReplaceAll (ReplaceAll s CHR ''$'' []) CHR '','' []))"

definition parseOdds :: "'f float64_ops \<Rightarrow> string \<Rightarrow> 'f" where
  "parseOdds ops s =
     (let parts = Split s CHR '':''
      in if length parts \<noteq> 2 then f_zero ops
         else value_of ops (ParseFloat ops (parts ! 1)))"

definition parseInt :: "string \<Rightarrow> go_int" where
  "parseInt s = fst (Atoi (ReplaceAll s CHR '','' []))"

section \<open>The metadata table and the prize table\<close>

text \<open>
  \<open>ParseMetaData\<close> runs over the rows with the three named results as its state; the
  \<^verbatim>\<open>switch\<close> takes the first case that matches.
\<close>

fun ParseMetaData_loop ::
  "'f float64_ops \<Rightarrow> go_int \<times> 'f \<times> string \<Rightarrow> string list list \<Rightarrow> go_int \<times> 'f \<times> string" where
  "ParseMetaData_loop ops acc [] = acc"
| "ParseMetaData_loop ops (price, odds, launchDate) (row # rows) =
     (if length row < 2 then ParseMetaData_loop ops (price, odds, launchDate) rows
      else
        let key = ToLower (row ! 0); val = row ! 1
        in if Contains key ''ticket price''
             then ParseMetaData_loop ops (parseDollar val, odds, launchDate) rows
           else if Contains key ''overall odds''
             then ParseMetaData_loop ops (price, parseOdds ops val, launchDate) rows
           else if Contains key ''launch date''
             then ParseMetaData_loop ops (price, odds, val) rows
           else ParseMetaData_loop ops (price, odds, launchDate) rows)"

definition ParseMetaData :: "'f float64_ops \<Rightarrow> string list list \<Rightarrow> go_int \<times> 'f \<times> string" where
  "ParseMetaData ops table = ParseMetaData_loop ops (0, f_zero ops, []) table"

fun ParsePrizes_loop :: "PrizeTier list \<Rightarrow> string list list \<Rightarrow> PrizeTier list" where
  "ParsePrizes_loop prizes [] = prizes"
| "ParsePrizes_loop prizes (row # rows) =
     (if length row < 3 then ParsePrizes_loop prizes rows
      else if Contains (ToLower (row ! 0)) ''2nd chance'' then ParsePrizes_loop prizes rows
      else ParsePrizes_loop
             (prizes @ [\<lparr>Value = parseDollar (row ! 0),
                         OriginalCount = parseInt (row ! 1),
                         RemainingCount = parseInt (row ! 2)\<rparr>]) rows)"

text \<open>\<^verbatim>\<open>table[1:]\<close> panics when the table has no row (slice bounds out of range).\<close>

definition ParsePrizes :: "string list list \<Rightarrow> crash + PrizeTier list" where
  "ParsePrizes table = (case table of [] \<Rightarrow> Inl Panic | header # rows \<Rightarrow> Inr (ParsePrizes_loop [] rows))"

section \<open>Building a game\<close>

fun totals_loop :: "go_int \<times> go_int \<Rightarrow> PrizeTier list \<Rightarrow> go_int \<times> go_int" where
  "totals_loop acc [] = acc"
| "totals_loop (totalOrg, totalRemain) (p # ps) =
     totals_loop (totalOrg + OriginalCount p, totalRemain + RemainingCount p) ps"

text \<open>
  \<^verbatim>\<open>tables[0]\<close> and \<^verbatim>\<open>tables[1]\<close> panic when the index is out of range; both are read
  before anything is parsed.
\<close>

definition BuildGame :: "'f float64_ops \<Rightarrow> string list list list \<Rightarrow> string \<Rightarrow> string \<Rightarrow> crash + 'f Game" where
  "BuildGame ops tables name url =
     (if length tables < 1 then Inl Panic
      else if length tables < 2 then Inl Panic
      else
        let meta = tables ! 0; prizeTables = tables ! 1;
            md = ParseMetaData ops meta
        in case ParsePrizes prizeTables of
             Inl c \<Rightarrow> Inl c
           | Inr prizeTiers \<Rightarrow>
               let tot = totals_loop (0, 0) prizeTiers
               in Inr \<lparr>Name = name, Price = fst md, Odds = fst (snd md),
                        LaunchDate = snd (snd md), GameNumber = 0,
                        PrizeTiers = prizeTiers,
                        TotalOriginalPrizes = fst tot, TotalRemainingPrizes = snd tot,
                        URL = url\<rparr>)"

section \<open>Ticket estimates and expected value\<close>

definition OriginalTickets :: "'f float64_ops \<Rightarrow> 'f Game \<Rightarrow> go_int" where
  "OriginalTickets ops g =
     f_to_int ops (f_round ops (f_mul ops (Odds g) (f_of_int ops (TotalOriginalPrizes g))))"

definition RemainingTickets :: "'f float64_ops \<Rightarrow> 'f Game \<Rightarrow> go_int" where
  "RemainingTickets ops g =
     f_to_int ops (f_round ops (f_mul ops (Odds g) (f_of_int ops (TotalRemainingPrizes g))))"

fun EV_loop :: "'f float64_ops \<Rightarrow> go_int \<Rightarrow> 'f \<Rightarrow> PrizeTier list \<Rightarrow> 'f" where
  "EV_loop ops remainingTickets expectedWin [] = expectedWin"
| "EV_loop ops remainingTickets expectedWin (p # ps) =
     (if sint (RemainingCount p) \<le> 0 \<or> sint (Value p) \<le> 0
        then EV_loop ops remainingTickets expectedWin ps
      else
        let prob = f_div ops (f_of_int ops (RemainingCount p)) (f_of_int ops remainingTickets)
        in EV_loop ops remainingTickets
             (f_add ops expectedWin (f_mul ops prob (f_of_int ops (Value p)))) ps)"

definition EV :: "'f float64_ops \<Rightarrow> 'f Game \<Rightarrow> 'f" where
  "EV ops g =
     (let remainingTickets = RemainingTickets ops g
      in if remainingTickets = 0 then f_of_int ops (Price g)
         else f_sub ops (f_of_int ops (Price g))
                (EV_loop ops remainingTickets (f_zero ops) (PrizeTiers g)))"

section \<open>Pages as token streams\<close>

text \<open>
  The program reads a page through \<^verbatim>\<open>html.NewTokenizer\<close> of \<^verbatim>\<open>golang.org/x/net/html\<close>:
  \<^verbatim>\<open>z.Next()\<close> gives the type of the next token, \<^verbatim>\<open>z.Token()\<close> its tag name or text
  and its attributes. A page is modelled by the tokens the tokenizer yields for its
  bytes; the end of the list is the \<^verbatim>\<open>ErrorToken\<close> the tokenizer returns at the end of
  the input.
\<close>

datatype TokenType =
  ErrorToken | TextToken | StartTagToken | EndTagToken | SelfClosingTagToken
  | CommentToken | DoctypeToken

record Attribute =
  Key :: string
  Val :: string

record Token =
  Type :: TokenType
  Data :: string
  Attr :: "Attribute list"

section \<open>Link discovery\<close>

text \<open>
  The state of the loop of \<open>GetLinks\<close>: the links found, \<^verbatim>\<open>inActiveSession\<close> and
  \<^verbatim>\<open>divDepth\<close>. \<open>GetLinks_token\<close> is one pass through the loop body, with its three
  \<^verbatim>\<open>if\<close> statements in the order of the source.
\<close>

record links_state =
  links :: "string list"
  inActiveSession :: bool
  divDepth :: int

definition start_div :: "links_state \<Rightarrow> Token \<Rightarrow> links_state" where
  "start_div st token =
     (if Type token = StartTagToken \<and> Data token = ''div'' then
        let st1 = (if list_ex (\<lambda>a. Key a = ''class'' \<and> Val a = ''col-lg-3 gamebox'') (Attr token)
                   then st\<lparr>inActiveSession := True, divDepth := 1\<rparr> else st)
        in if inActiveSession st1 \<and> \<not> (Data token = ''div'' \<and> divDepth st1 = 1)
           then st1\<lparr>divDepth := divDepth st1 + 1\<rparr> else st1
      else st)"

definition end_div :: "links_state \<Rightarrow> Token \<Rightarrow> links_state" where
  "end_div st token =
     (if Type token = EndTagToken \<and> Data token = ''div'' then
        if inActiveSession st then
          let st1 = st\<lparr>divDepth := divDepth st - 1\<rparr>
          in if divDepth st1 = 0 then st1\<lparr>inActiveSession := False\<rparr> else st1
        else st
      else st)"

definition capture :: "links_state \<Rightarrow> Token \<Rightarrow> links_state" where
  "capture st token =
     (if inActiveSession st \<and> Type token = StartTagToken \<and> Data token = ''a''
      then st\<lparr>links := links st @ map Val (filter (\<lambda>a. Key a = ''href'') (Attr token))\<rparr>
      else st)"

definition GetLinks_token :: "links_state \<Rightarrow> Token \<Rightarrow> links_state" where
  "GetLinks_token st token = capture (end_div (start_div st token) token) token"

fun GetLinks_loop :: "links_state \<Rightarrow> Token list \<Rightarrow> string list" where
  "GetLinks_loop st [] = links st"
| "GetLinks_loop st (token # rest) =
     (if Type token = ErrorToken then links st
      else GetLinks_loop (GetLinks_token st token) rest)"

definition GetLinks :: "Token list \<Rightarrow> string list" where
  "GetLinks page = GetLinks_loop \<lparr>links = [], inActiveSession = False, divDepth = 0\<rparr> page"

text \<open>
  The link discoverer as the specification words it: an automaton that is outside the
  marked container or inside it at a depth, that goes one level down at every
  \<^verbatim>\<open>div\<close> opened inside and one level up at every \<^verbatim>\<open>div\<close> closed, and that leaves
  the container when the depth is back at zero.
\<close>

fun links_spec :: "nat \<Rightarrow> Token list \<Rightarrow> string list" where
  "links_spec depth [] = []"
| "links_spec depth (token # rest) =
     (if Type token = ErrorToken then []
      else if Type token = StartTagToken \<and> Data token = ''div'' then
        (if 0 < depth then links_spec (depth + 1) rest
         else if list_ex (\<lambda>a. Key a = ''class'' \<and> Val a = ''col-lg-3 gamebox'') (Attr token)
           then links_spec 1 rest
         else links_spec 0 rest)
      else if Type token = EndTagToken \<and> Data token = ''div'' then links_spec (depth - 1) rest
      else if 0 < depth \<and> Type token = StartTagToken \<and> Data token = ''a''
        then map Val (filter (\<lambda>a. Key a = ''href'') (Attr token)) @ links_spec depth rest
      else links_spec depth rest)"

section \<open>Table extraction\<close>

record tables_state =
  tables :: "string list list list"
  currentTable :: "string list list"
  currentRow :: "string list"
  inTable :: bool
  inRow :: bool
  inCell :: bool

definition ExtractTables_token :: "tables_state \<Rightarrow> Token \<Rightarrow> tables_state" where
  "ExtractTables_token st t =
     (case Type t of
        StartTagToken \<Rightarrow>
          (if Data t = ''table'' then st\<lparr>inTable := True, currentTable := []\<rparr>
           else if Data t = ''tr'' then
             (if inTable st then st\<lparr>inRow := True, currentRow := []\<rparr> else st)
           else if Data t = ''td'' \<or> Data t = ''th'' then
             (if inRow st then st\<lparr>inCell := True\<rparr> else st)
           else st)
      | EndTagToken \<Rightarrow>
          (if Data t = ''td'' \<or> Data t = ''th'' then st\<lparr>inCell := False\<rparr>
           else if Data t = ''tr'' then
             (if inRow st
              then st\<lparr>inRow := False, currentTable := currentTable st @ [currentRow st]\<rparr>
              else st)
           else if Data t = ''table'' then
             (if inTable st
              then st\<lparr>inTable := False, tables := tables st @ [currentTable st]\<rparr>
              else st)
           else st)
      | TextToken \<Rightarrow>
          (if inCell st then
             (let txt = TrimSpace (Data t)
              in if txt \<noteq> [] then st\<lparr>currentRow := currentRow st @ [txt]\<rparr> else st)
           else st)
      | _ \<Rightarrow> st)"

fun ExtractTables_loop :: "tables_state \<Rightarrow> Token list \<Rightarrow> string list list list" where
  "ExtractTables_loop st [] = tables st"
| "ExtractTables_loop st (t # rest) =
     (if Type t = ErrorToken then tables st
      else ExtractTables_loop (ExtractTables_token st t) rest)"

definition ExtractTables :: "Token list \<Rightarrow> string list list list" where
  "ExtractTables htmlBytes =
     ExtractTables_loop
       \<lparr>tables = [], currentTable = [], currentRow = [],
        inTable = False, inRow = False, inCell = False\<rparr> htmlBytes"

section \<open>Fetching pages\<close>

text \<open>
  The network is a parameter: what an HTTP GET of a URL gives. \<^verbatim>\<open>http.Get\<close> fails
  (\<open>TransportError\<close>, with the error's text), or it answers and \<^verbatim>\<open>io.ReadAll\<close> of the
  body fails (\<open>ReadError\<close>), or the body is read (\<open>Body\<close>).
\<close>

datatype response = TransportError string | ReadError string | Body "Token list"

definition startUrl :: string where
  "startUrl = ''https://www.mslottery.com/gamestatus/active/''"

definition GetHTML :: "(string \<Rightarrow> response) \<Rightarrow> crash + Token list" where
  "GetHTML net =
     (case net startUrl of
        TransportError e \<Rightarrow> Inl (Fatal e)
      | ReadError e \<Rightarrow> Inl (Fatal e)
      | Body data \<Rightarrow> Inr data)"

text \<open>\<open>GamePage\<close> returns the body or the error of reading it; a failed GET is fatal.\<close>

definition GamePage :: "(string \<Rightarrow> response) \<Rightarrow> string \<Rightarrow> crash + (string + Token list)" where
  "GamePage net url =
     (case net url of
        TransportError e \<Rightarrow> Inl (Fatal e)
      | ReadError e \<Rightarrow> Inr (Inl e)
      | Body data \<Rightarrow> Inr (Inr data))"

text \<open>
  \<open>ParseGame\<close> gives the lines it prints and the tables; \<^verbatim>\<open>nil\<close> is the empty list.
  \<^verbatim>\<open>fmt.Println\<close> puts a blank between its operands.
\<close>

definition ParseGame ::
  "(string \<Rightarrow> response) \<Rightarrow> string \<Rightarrow> crash + (string list \<times> string list list list)" where
  "ParseGame net url =
     (case GamePage net url of
        Inl c \<Rightarrow> Inl c
      | Inr (Inl err) \<Rightarrow> Inr ([''Error fetching game page: '' @ url @ '' '' @ err], [])
      | Inr (Inr htmlBytes) \<Rightarrow> Inr ([], ExtractTables htmlBytes))"

definition exctractGameName :: "string \<Rightarrow> string" where
  "exctractGameName url =
     (let parts = Split (Trim url ''/'') CHR ''/''
      in if 1 < length parts then ReplaceAll (last parts) CHR ''-'' '' '' else url)"

text \<open>
  The body of the goroutine \<open>main\<close> starts for a link, up to the append: the lines
  printed, and the game to append or the way the process dies.
\<close>

definition task ::
  "'f float64_ops \<Rightarrow> (string \<Rightarrow> response) \<Rightarrow> string \<Rightarrow> string list \<times> (crash + 'f Game)" where
  "task ops net l =
     (case ParseGame net l of
        Inl c \<Rightarrow> ([], Inl c)
      | Inr (out, tbls) \<Rightarrow> (out, BuildGame ops tbls (exctractGameName l) l))"

section \<open>Sorting and writing the report\<close>

text \<open>
  \<^verbatim>\<open>sort.Slice(games, less)\<close> reorders the slice so that no element is \<^verbatim>\<open>less\<close> than
  one before it; it is not stable, and which of two elements that \<^verbatim>\<open>less\<close> does not
  order comes first is left open by the library. The model is an insertion sort with
  the same comparison, here \<open>lt\<close>.
\<close>

fun insert_by :: "('a \<Rightarrow> 'a \<Rightarrow> bool) \<Rightarrow> 'a \<Rightarrow> 'a list \<Rightarrow> 'a list" where
  "insert_by lt x [] = [x]"
| "insert_by lt x (y # ys) = (if lt x y then x # y # ys else y # insert_by lt x ys)"

definition sort_Slice :: "('a \<Rightarrow> 'a \<Rightarrow> bool) \<Rightarrow> 'a list \<Rightarrow> 'a list" where
  "sort_Slice lt xs = foldr (insert_by lt) xs []"

definition csv_header :: "string list" where
  "csv_header =
     [''Name'', ''Price'', ''Odds'', ''Launch Date'', ''Original Winning Tickets'',
      ''Remaining Winning Tickets'', ''Estimated Original Tickets'',
      ''Estimated Remaining Tickets'', ''EV'', ''URL'']"

definition csv_row :: "'f float64_ops \<Rightarrow> 'f Game \<Rightarrow> string list" where
  "csv_row ops g =
     (let ev = EV ops g
      in [Name g, Itoa (Price g), ''1:'' @ Sprintf_2f ops (Odds g), LaunchDate g,
          Itoa (TotalOriginalPrizes g), Itoa (TotalRemainingPrizes g),
          Itoa (OriginalTickets ops g), Itoa (RemainingTickets ops g),
          Sprintf_2f ops ev, URL g])"

text \<open>
  The file system is a parameter: \<^verbatim>\<open>os.Create\<close> of a name fails with an error text or
  succeeds. \<open>WriteCSV\<close> gives the error, or the records it hands to the CSV writer.
\<close>

definition WriteCSV ::
  "'f float64_ops \<Rightarrow> (string \<Rightarrow> string option) \<Rightarrow> 'f Game list \<Rightarrow> string \<Rightarrow> string + string list list" where
  "WriteCSV ops fs gs filename =
     (case fs filename of
        Some err \<Rightarrow> Inl err
      | None \<Rightarrow> Inr (csv_header # map (csv_row ops) gs))"

text \<open>The comparison \<open>main\<close> sorts with: \<^verbatim>\<open>games[i].EV() > games[j].EV()\<close>.\<close>

definition by_EV :: "'f float64_ops \<Rightarrow> 'f Game \<Rightarrow> 'f Game \<Rightarrow> bool" where
  "by_EV ops a b = f_gt ops (EV ops a) (EV ops b)"

text \<open>The end of \<open>main\<close>, from \<^verbatim>\<open>sort.Slice\<close> on: the records written and the line printed.\<close>

definition report ::
  "'f float64_ops \<Rightarrow> (string \<Rightarrow> string option) \<Rightarrow> 'f Game list \<Rightarrow> crash + (string list list \<times> string list)" where
  "report ops fs gs =
     (case WriteCSV ops fs (sort_Slice (by_EV ops) gs) ''mslotto_games.csv'' of
        Inl err \<Rightarrow> Inl (Fatal (''Error writing CSV:'' @ err))
      | Inr rows \<Rightarrow> Inr (rows, [''Data written to mslotto_games.csv'']))"

section \<open>The orchestrator\<close>

text \<open>
  \<open>main\<close> and its goroutines as a transition system over interleaved atomic steps.
  \<open>sem\<close> is the number of elements in the buffered channel of capacity 75; a send
  needs room, a receive needs an element. \<open>todo\<close> are the links the \<^verbatim>\<open>range\<close> loop
  has not reached, \<open>drained\<close> is the counter \<^verbatim>\<open>i\<close> of the last loop. \<open>running\<close> are
  the goroutines started and not yet through their deferred receive: \<open>Working\<close> before
  the append under the mutex, \<open>Appended\<close> after it. A goroutine that dies takes the
  process with it.
\<close>

datatype main_pc = Launching | Draining | Sorting | Exited | Crashed crash

datatype phase = Working | Appended

record 'f main_state =
  pc :: main_pc
  todo :: "string list"
  sem :: nat
  drained :: nat
  running :: "(string \<times> phase) list"
  games :: "'f Game list"
  printed :: "string list"
  written :: "string list list"

definition cap_sem :: nat where
  "cap_sem = 75"

definition main_init :: "(string \<Rightarrow> response) \<Rightarrow> 'f main_state" where
  "main_init net =
     (case GetHTML net of
        Inl c \<Rightarrow>
          \<lparr>pc = Crashed c, todo = [], sem = 0, drained = 0, running = [], games = [],
           printed = [], written = []\<rparr>
      | Inr page \<Rightarrow>
          \<lparr>pc = Launching, todo = GetLinks page, sem = 0, drained = 0, running = [],
           games = [], printed = [], written = []\<rparr>)"

definition alive :: "'f main_state \<Rightarrow> bool" where
  "alive s = (pc s = Launching \<or> pc s = Draining \<or> pc s = Sorting)"

inductive step ::
  "'f float64_ops \<Rightarrow> (string \<Rightarrow> response) \<Rightarrow> (string \<Rightarrow> string option) \<Rightarrow>
   'f main_state \<Rightarrow> 'f main_state \<Rightarrow> bool"
  for ops :: "'f float64_ops" and net :: "string \<Rightarrow> response" and fs :: "string \<Rightarrow> string option"
where
  launch:
    "pc s = Launching \<Longrightarrow> todo s = l # ls \<Longrightarrow> sem s < cap_sem \<Longrightarrow>
     step ops net fs s
       (s\<lparr>todo := ls, sem := sem s + 1, running := running s @ [(l, Working)]\<rparr>)"
| launched_all:
    "pc s = Launching \<Longrightarrow> todo s = [] \<Longrightarrow>
     step ops net fs s (s\<lparr>pc := Draining, drained := 0\<rparr>)"
| drain:
    "pc s = Draining \<Longrightarrow> drained s < cap_sem \<Longrightarrow> sem s < cap_sem \<Longrightarrow>
     step ops net fs s (s\<lparr>sem := sem s + 1, drained := drained s + 1\<rparr>)"
| drain_done:
    "pc s = Draining \<Longrightarrow> \<not> drained s < cap_sem \<Longrightarrow>
     step ops net fs s (s\<lparr>pc := Sorting\<rparr>)"
| report_ok:
    "pc s = Sorting \<Longrightarrow> report ops fs (games s) = Inr (rows, out) \<Longrightarrow>
     step ops net fs s (s\<lparr>pc := Exited, written := rows, printed := printed s @ out\<rparr>)"
| report_fatal:
    "pc s = Sorting \<Longrightarrow> report ops fs (games s) = Inl c \<Longrightarrow>
     step ops net fs s (s\<lparr>pc := Crashed c\<rparr>)"
| work:
    "alive s \<Longrightarrow> running s = xs @ (l, Working) # ys \<Longrightarrow> task ops net l = (out, Inr g) \<Longrightarrow>
     step ops net fs s
       (s\<lparr>running := xs @ (l, Appended) # ys, games := games s @ [g],
          printed := printed s @ out\<rparr>)"
| die:
    "alive s \<Longrightarrow> running s = xs @ (l, Working) # ys \<Longrightarrow> task ops net l = (out, Inl c) \<Longrightarrow>
     step ops net fs s (s\<lparr>pc := Crashed c, printed := printed s @ out\<rparr>)"
| release:
    "alive s \<Longrightarrow> running s = xs @ (l, Appended) # ys \<Longrightarrow> 0 < sem s \<Longrightarrow>
     step ops net fs s (s\<lparr>running := xs @ ys, sem := sem s - 1\<rparr>)"

inductive reachable ::
  "'f float64_ops \<Rightarrow> (string \<Rightarrow> response) \<Rightarrow> (string \<Rightarrow> string option) \<Rightarrow> 'f main_state \<Rightarrow> bool"
  for ops :: "'f float64_ops" and net :: "string \<Rightarrow> response" and fs :: "string \<Rightarrow> string option"
where
  start: "reachable ops net fs (main_init net)"
| next_step: "reachable ops net fs s \<Longrightarrow> step ops net fs s s' \<Longrightarrow> reachable ops net fs s'"

text \<open>The links the landing page gives, when it can be fetched.\<close>

definition discovered :: "(string \<Rightarrow> response) \<Rightarrow> string list" where
  "discovered net = (case GetHTML net of Inl c \<Rightarrow> [] | Inr page \<Rightarrow> GetLinks page)"

section \<open>The expected value as the specification words it\<close>

text \<open>
  The probability-weighted value of the tiers with a positive remaining count and a
  positive value, accumulated in the order of the tiers, and the price minus it; the
  price itself when no ticket remains.
\<close>

definition expected_win :: "'f float64_ops \<Rightarrow> go_int \<Rightarrow> PrizeTier list \<Rightarrow> 'f" where
  "expected_win ops remainingTickets tiers =
     foldl (f_add ops) (f_zero ops)
       (map (\<lambda>p. f_mul ops
                    (f_div ops (f_of_int ops (RemainingCount p)) (f_of_int ops remainingTickets))
                    (f_of_int ops (Value p)))
          (filter (\<lambda>p. 0 < sint (RemainingCount p) \<and> 0 < sint (Value p)) tiers))"

definition EV_spec :: "'f float64_ops \<Rightarrow> 'f Game \<Rightarrow> 'f" where
  "EV_spec ops g =
     (if RemainingTickets ops g = 0 then f_of_int ops (Price g)
      else f_sub ops (f_of_int ops (Price g))
             (expected_win ops (RemainingTickets ops g) (PrizeTiers g)))"

section \<open>An instance of the float64 operations: exact arithmetic\<close>

text \<open>
  The real numbers with exact operations, for running the model on examples.
  \<^verbatim>\<open>math.Round\<close> rounds half away from zero, the conversion to \<^verbatim>\<open>int\<close> drops the
  fraction. The parser of this instance reads a sign, digits and a fraction
  (\<^verbatim>\<open>3.50\<close>, \<^verbatim>\<open>-12\<close>, \<^verbatim>\<open>.5\<close>); the formatter writes two decimals.
\<close>

definition dec_val :: "string \<Rightarrow> nat" where
  "dec_val ds = foldl (\<lambda>n c. n * 10 + digit_val c) 0 ds"

definition round_half_away :: "real \<Rightarrow> real" where
  "round_half_away x = (if 0 \<le> x then of_int \<lfloor>x + 1 / 2\<rfloor> else - of_int \<lfloor>- x + 1 / 2\<rfloor>)"

definition truncate_to_int :: "real \<Rightarrow> go_int" where
  "truncate_to_int x = (if 0 \<le> x then word_of_int \<lfloor>x\<rfloor> else - word_of_int \<lfloor>- x\<rfloor>)"

definition parse_decimal :: "string \<Rightarrow> real parse_result" where
  "parse_decimal s =
     (let neg = (s \<noteq> [] \<and> hd s = CHR ''-'');
          body = (if s \<noteq> [] \<and> (hd s = CHR ''+'' \<or> hd s = CHR ''-'') then tl s else s);
          ip = takeWhile is_digit body;
          rest = dropWhile is_digit body;
          fp = (if rest = [] then [] else tl rest);
          mag = real (dec_val ip) + real (dec_val fp) / 10 ^ length fp
      in if ip = [] \<and> fp = [] then SyntaxError
         else if rest \<noteq> [] \<and> hd rest \<noteq> CHR ''.'' then SyntaxError
         else if \<not> list_all is_digit fp then SyntaxError
         else Parsed (if neg then - mag else mag))"

definition format_2f :: "real \<Rightarrow> string" where
  "format_2f x =
     (let y = \<bar>x\<bar> * 100;
          lo = nat \<lfloor>y\<rfloor>;
          n = (if y - real lo < 1 / 2 then lo
               else if 1 / 2 < y - real lo then lo + 1
               else if even lo then lo else lo + 1)
      in (if x < 0 then ''-'' else []) @ digits_of (n div 100) @ ''.''
           @ [''0123456789'' ! (n mod 100 div 10), ''0123456789'' ! (n mod 10)])"

definition exact_ops :: "real float64_ops" where
  "exact_ops =
     \<lparr>f_zero = 0,
      f_of_int = (\<lambda>n. real_of_int (sint n)),
      f_add = (+), f_sub = (-), f_mul = (*), f_div = (/),
      f_gt = (\<lambda>a b. b < a),
      f_round = round_half_away,
      f_to_int = truncate_to_int,
      ParseFloat = parse_decimal,
      Sprintf_2f = format_2f\<rparr>"

section \<open>Example pages\<close>

text \<open>Tokens written as tags, and the tokens of a table given by its rows of cells.\<close>

definition attr :: "string \<Rightarrow> string \<Rightarrow> Attribute" where
  "attr k v = \<lparr>Key = k, Val = v\<rparr>"

definition StartTag :: "string \<Rightarrow> Attribute list \<Rightarrow> Token" where
  "StartTag name attrs = \<lparr>Type = StartTagToken, Data = name, Attr = attrs\<rparr>"

definition EndTag :: "string \<Rightarrow> Token" where
  "EndTag name = \<lparr>Type = EndTagToken, Data = name, Attr = []\<rparr>"

definition Text :: "string \<Rightarrow> Token" where
  "Text s = \<lparr>Type = TextToken, Data = s, Attr = []\<rparr>"

definition row_tokens :: "string \<Rightarrow> string list \<Rightarrow> Token list" where
  "row_tokens cell cells =
     StartTag ''tr'' [] # concat (map (\<lambda>c. [StartTag cell [], Text c, EndTag cell]) cells)
       @ [EndTag ''tr'']"

definition table_tokens :: "Token list list \<Rightarrow> Token list" where
  "table_tokens rows = StartTag ''table'' [] # concat rows @ [EndTag ''table'']"

text \<open>
  A landing page: a link outside the marked container, the container with two game
  links, a link after it.
\<close>

definition lucky_url :: string where
  "lucky_url = ''https://www.mslottery.com/game/lucky-7s/''"

definition gold_url :: string where
  "gold_url = ''https://www.mslottery.com/game/gold-rush/''"

definition fixture_page :: "Token list" where
  "fixture_page =
     [StartTag ''a'' [attr ''href'' ''/home''], Text ''Home'', EndTag ''a'',
      StartTag ''div'' [attr ''class'' ''col-lg-3 gamebox''],
      StartTag ''a'' [attr ''href'' lucky_url], Text ''Lucky 7s'', EndTag ''a'',
      StartTag ''a'' [attr ''href'' gold_url], Text ''Gold Rush'', EndTag ''a'',
      EndTag ''div'',
      StartTag ''a'' [attr ''href'' ''/contact''], Text ''Contact'', EndTag ''a'']"

text \<open>
  The same two game links, the first of them inside a \<^verbatim>\<open>div\<close> of its own within the
  marked container.
\<close>

definition nested_page :: "Token list" where
  "nested_page =
     [StartTag ''div'' [attr ''class'' ''col-lg-3 gamebox''],
      StartTag ''div'' [attr ''class'' ''thumb''],
      StartTag ''a'' [attr ''href'' lucky_url], Text ''Lucky 7s'', EndTag ''a'',
      EndTag ''div'',
      StartTag ''a'' [attr ''href'' gold_url], Text ''Gold Rush'', EndTag ''a'',
      EndTag ''div'']"

text \<open>The metadata table and the prize table of the specification's example, and a second game.\<close>

definition fixture_meta :: "string list list" where
  "fixture_meta =
     [[''Ticket Price'', ''$5''], [''Overall Odds'', ''1:3.50''], [''Launch Date'', ''2023-01-01'']]"

definition fixture_prizes :: "string list \<Rightarrow> string list list" where
  "fixture_prizes header = [header, [''$100'', ''50'', ''10''], [''2nd Chance'', ''5'', ''5'']]"

definition prize_header :: "string list" where
  "prize_header = [''Prize'', ''Total'', ''Remaining'']"

definition lucky_page :: "Token list" where
  "lucky_page =
     table_tokens (map (row_tokens ''td'') fixture_meta)
     @ table_tokens (row_tokens ''th'' prize_header
                      # map (row_tokens ''td'') (tl (fixture_prizes prize_header)))"

definition gold_page :: "Token list" where
  "gold_page =
     table_tokens (map (row_tokens ''td'')
        [[''Ticket Price'', ''$10''], [''Overall Odds'', ''1:4.00''], [''Launch Date'', ''2024-06-01'']])
     @ table_tokens (row_tokens ''th'' prize_header
                      # map (row_tokens ''td'') [[''$20'', ''100'', ''50'']])"

definition lucky_game :: "real Game" where
  "lucky_game =
     \<lparr>Name = ''lucky 7s'', Price = 5, Odds = 7 / 2, LaunchDate = ''2023-01-01'', GameNumber = 0,
      PrizeTiers = [\<lparr>Value = 100, OriginalCount = 50, RemainingCount = 10\<rparr>],
      TotalOriginalPrizes = 50, TotalRemainingPrizes = 10, URL = lucky_url\<rparr>"

definition gold_game :: "real Game" where
  "gold_game =
     \<lparr>Name = ''gold rush'', Price = 10, Odds = 4, LaunchDate = ''2024-06-01'', GameNumber = 0,
      PrizeTiers = [\<lparr>Value = 20, OriginalCount = 100, RemainingCount = 50\<rparr>],
      TotalOriginalPrizes = 100, TotalRemainingPrizes = 50, URL = gold_url\<rparr>"

text \<open>
  Three networks: one that serves every page, one that refuses the connection to every
  game page, one where reading the body of every game page fails. And a file system
  where the report can be created.
\<close>

definition good_net :: "string \<Rightarrow> response" where
  "good_net url =
     (if url = startUrl then Body fixture_page
      else if url = lucky_url then Body lucky_page
      else if url = gold_url then Body gold_page
      else TransportError ''no such host'')"

definition refusing_net :: "string \<Rightarrow> response" where
  "refusing_net url =
     (if url = startUrl then Body fixture_page else TransportError ''connection refused'')"

definition truncating_net :: "string \<Rightarrow> response" where
  "truncating_net url =
     (if url = startUrl then Body fixture_page else ReadError ''unexpected EOF'')"

definition writable_fs :: "string \<Rightarrow> string option" where
  "writable_fs filename = None"

section \<open>What holds in every state of the orchestrator\<close>

text \<open>
  The channel holds one element for every goroutine in flight and one for every pass of
  the last loop; the last loop starts when no link is left and ends with the channel
  full; every discovered link is waiting, at work, or has its game in the collection;
  and every game of the collection is what the goroutine of its link built.
\<close>

definition main_inv :: "'f float64_ops \<Rightarrow> (string \<Rightarrow> response) \<Rightarrow> 'f main_state \<Rightarrow> bool" where
  "main_inv ops net s =
     (sem s = length (running s) + drained s \<and> sem s \<le> cap_sem
      \<and> (pc s = Draining \<or> pc s = Sorting \<or> pc s = Exited \<longrightarrow> todo s = [])
      \<and> (pc s = Launching \<longrightarrow> drained s = 0)
      \<and> (pc s = Sorting \<or> pc s = Exited \<longrightarrow> drained s = cap_sem)
      \<and> mset (map URL (games s)) + mset (map fst (filter (\<lambda>p. snd p = Working) (running s)))
          + mset (todo s) = mset (discovered net)
      \<and> list_all (\<lambda>g. \<exists>out. task ops net (URL g) = (out, Inr g)) (games s))"

section \<open>Example runs\<close>

text \<open>
  States of the orchestrator on the example landing page: both goroutines at work; the
  report written; and the process dead after the first goroutine could not connect, or
  could not read the body.
\<close>

definition both_working :: "real main_state" where
  "both_working =
     \<lparr>pc = Launching, todo = [], sem = 2, drained = 0,
      running = [(lucky_url, Working), (gold_url, Working)], games = [], printed = [],
      written = []\<rparr>"

definition report_written :: "real main_state" where
  "report_written =
     \<lparr>pc = Exited, todo = [], sem = 75, drained = 75, running = [],
      games = [lucky_game, gold_game],
      printed = [''Data written to mslotto_games.csv''],
      written = [csv_header, csv_row exact_ops gold_game, csv_row exact_ops lucky_game]\<rparr>"

definition died_connecting :: "real main_state" where
  "died_connecting =
     \<lparr>pc = Crashed (Fatal ''connection refused''), todo = [gold_url], sem = 1, drained = 0,
      running = [(lucky_url, Working)], games = [], printed = [], written = []\<rparr>"


section \<open>Parsing cells: properties\<close>

lemma ReplaceAll_empty_filter: "ReplaceAll s c [] = filter (\<lambda>x. x \<noteq> c) s"
  by (induction s) (simp_all add: ReplaceAll_def)

lemma strip_dollar_comma:
  "ReplaceAll (ReplaceAll s CHR ''$'' []) CHR '','' [] =
   filter (\<lambda>c. c \<noteq> CHR ''$'' \<and> c \<noteq> CHR '','') s"
  by (simp add: ReplaceAll_empty_filter conj_commute)

lemma foldl_digits_ge: "m \<le> foldl (\<lambda>n c. n * 10 + digit_val c) m cs"
proof (induction cs arbitrary: m)
  case Nil
  show ?case by simp
next
  case (Cons c cs)
  have "m \<le> m * 10 + digit_val c" by simp
  also have "\<dots> \<le> foldl (\<lambda>n c. n * 10 + digit_val c) (m * 10 + digit_val c) cs"
    by (rule Cons.IH)
  finally show ?case by simp
qed

text \<open>On digits whose value fits 64 bits the scan of \<open>ParseUint\<close> ends with that value.\<close>

lemma ParseUint_loop_digits:
  "list_all is_digit ds \<Longrightarrow> foldl (\<lambda>n c. n * 10 + digit_val c) m ds \<le> maxUint64 \<Longrightarrow>
   ParseUint_loop m ds = (foldl (\<lambda>n c. n * 10 + digit_val c) m ds, None)"
proof (induction ds arbitrary: m)
  case Nil
  show ?case by simp
next
  case (Cons c cs)
  let ?m' = "m * 10 + digit_val c"
  have dig: "is_digit c" and rest: "list_all is_digit cs" using Cons.prems(1) by simp_all
  have fin: "foldl (\<lambda>n c. n * 10 + digit_val c) ?m' cs \<le> maxUint64"
    using Cons.prems(2) by simp
  have le: "?m' \<le> maxUint64" using foldl_digits_ge [of ?m' cs] fin by linarith
  then have a: "\<not> maxUint64 div 10 + 1 \<le> m" by linarith
  have b: "\<not> maxUint64 < ?m'" using le by simp
  show ?case using dig a b Cons.IH [OF rest fin] by simp
qed

lemma digit_not_sign: "is_digit c \<Longrightarrow> c \<noteq> CHR ''+'' \<and> c \<noteq> CHR ''-''"
  by (auto simp: is_digit_def)

lemma sint_of_nat_small: "n < 2 ^ 63 \<Longrightarrow> sint (of_nat n :: go_int) = int n"
proof -
  assume n: "n < 2 ^ 63"
  have "int n < 2 ^ 63" using n by (metis of_nat_less_iff of_nat_numeral of_nat_power)
  then have "signed_take_bit 63 (int n) = int n"
    by (intro signed_take_bit_int_eq_self) simp_all
  then show ?thesis by (simp add: signed_of_nat)
qed

lemma Atoi_digits:
  assumes ne: "ds \<noteq> []" and dig: "list_all is_digit ds" and small: "dec_val ds < 2 ^ 63"
  shows "Atoi ds = (of_nat (dec_val ds), None)"
proof -
  obtain c cs where ds: "ds = c # cs" using ne by (cases ds) auto
  have c: "is_digit c" using dig ds by simp
  have nosign: "hd ds \<noteq> CHR ''+''" "hd ds \<noteq> CHR ''-''"
    using digit_not_sign [OF c] ds by simp_all
  have "dec_val ds \<le> maxUint64" using small by (simp add: maxUint64_def)
  then have loop: "ParseUint_loop 0 ds = (dec_val ds, None)"
    using ParseUint_loop_digits [OF dig, of 0] by (simp add: dec_val_def)
  have pu: "ParseUint ds = (dec_val ds, None)" using ne loop by (simp add: ParseUint_def)
  show ?thesis using ne nosign pu small by (simp add: Atoi_def ParseInt_def Let_def)
qed

text \<open>A byte that is not a digit, after digits that fit 64 bits, is a syntax error.\<close>

lemma ParseUint_loop_non_digit:
  "list_all is_digit ds \<Longrightarrow> foldl (\<lambda>n c. n * 10 + digit_val c) m ds \<le> maxUint64 \<Longrightarrow>
   \<not> is_digit c \<Longrightarrow> ParseUint_loop m (ds @ c # rest) = (0, Some ErrSyntax)"
proof (induction ds arbitrary: m)
  case Nil
  then show ?case by simp
next
  case (Cons d ds)
  let ?m' = "m * 10 + digit_val d"
  have dig: "is_digit d" and more: "list_all is_digit ds" using Cons.prems(1) by simp_all
  have fin: "foldl (\<lambda>n c. n * 10 + digit_val c) ?m' ds \<le> maxUint64"
    using Cons.prems(2) by simp
  have le: "?m' \<le> maxUint64" using foldl_digits_ge [of ?m' ds] fin by linarith
  then have a: "\<not> maxUint64 div 10 + 1 \<le> m" by linarith
  have b: "\<not> maxUint64 < ?m'" using le by simp
  show ?case using dig a b Cons.IH [OF more fin Cons.prems(3)] by simp
qed

lemma Atoi_non_digit:
  assumes dig: "list_all is_digit ds" and fits: "dec_val ds \<le> maxUint64"
    and c: "\<not> is_digit c" and first: "ds \<noteq> [] \<or> (c \<noteq> CHR ''+'' \<and> c \<noteq> CHR ''-'')"
  shows "Atoi (ds @ c # rest) = (0, Some ErrSyntax)"
proof -
  have nosign: "hd (ds @ c # rest) \<noteq> CHR ''+'' \<and> hd (ds @ c # rest) \<noteq> CHR ''-''"
  proof (cases ds)
    case Nil
    then show ?thesis using first by simp
  next
    case (Cons d ds')
    then have "is_digit d" using dig by simp
    then show ?thesis using Cons digit_not_sign by simp
  qed
  have "ParseUint (ds @ c # rest) = (0, Some ErrSyntax)"
    using ParseUint_loop_non_digit [OF dig _ c, of 0 rest] fits
    by (simp add: ParseUint_def dec_val_def)
  then show ?thesis using nosign by (simp add: Atoi_def ParseInt_def Let_def)
qed

text \<open>
  C8. Dollar parsing removes every \<^verbatim>\<open>$\<close> and every \<^verbatim>\<open>,\<close> and reads what is left
  with \<open>Atoi\<close>. When what is left is a run of decimal digits \<open>ds\<close> whose value fits the
  result type (\<open>dec_val ds < 2^63\<close>), the result is that value. When what is left is
  malformed, that is \<open>Atoi\<close> reports a syntax error for it, the result is 0; so it is
  when nothing is left, and when a byte that is not a digit follows digits that fit 64
  bits. The function has no error result: the error of \<open>Atoi\<close> is dropped.
\<close>

theorem parseDollar_strips_and_defaults:
  "(ds \<noteq> [] \<and> list_all is_digit ds \<and> dec_val ds < 2 ^ 63 \<and>
    filter (\<lambda>c. c \<noteq> CHR ''$'' \<and> c \<noteq> CHR '','') s = ds
      \<longrightarrow> parseDollar s = of_nat (dec_val ds) \<and> sint (parseDollar s) = int (dec_val ds))
   \<and> (snd (Atoi (filter (\<lambda>c. c \<noteq> CHR ''$'' \<and> c \<noteq> CHR '','') t)) = Some ErrSyntax
      \<longrightarrow> parseDollar t = 0)
   \<and> (filter (\<lambda>c. c \<noteq> CHR ''$'' \<and> c \<noteq> CHR '','') u = [] \<longrightarrow> parseDollar u = 0)
   \<and> (filter (\<lambda>c. c \<noteq> CHR ''$'' \<and> c \<noteq> CHR '','') w = ns @ c # rest
        \<and> list_all is_digit ns \<and> dec_val ns \<le> maxUint64 \<and> \<not> is_digit c
        \<and> (ns \<noteq> [] \<or> (c \<noteq> CHR ''+'' \<and> c \<noteq> CHR ''-''))
      \<longrightarrow> parseDollar w = 0)"
proof -
  let ?strip = "filter (\<lambda>c. c \<noteq> CHR ''$'' \<and> c \<noteq> CHR '','')"
  have a: "ds \<noteq> [] \<and> list_all is_digit ds \<and> dec_val ds < 2 ^ 63 \<and> ?strip s = ds
      \<longrightarrow> parseDollar s = of_nat (dec_val ds) \<and> sint (parseDollar s) = int (dec_val ds)"
  proof
    assume h: "ds \<noteq> [] \<and> list_all is_digit ds \<and> dec_val ds < 2 ^ 63 \<and> ?strip s = ds"
    then have "Atoi ds = (of_nat (dec_val ds), None)" by (intro Atoi_digits) simp_all
    then have v: "parseDollar s = of_nat (dec_val ds)"
      using h by (simp add: parseDollar_def strip_dollar_comma)
    then show "parseDollar s = of_nat (dec_val ds) \<and> sint (parseDollar s) = int (dec_val ds)"
      using h sint_of_nat_small [of "dec_val ds"] by simp
  qed
  have b: "snd (Atoi (?strip t)) = Some ErrSyntax \<longrightarrow> parseDollar t = 0"
    by (auto simp: parseDollar_def strip_dollar_comma Atoi_def ParseInt_def Let_def
        split: if_splits)
  have c: "?strip u = [] \<longrightarrow> parseDollar u = 0"
    by (simp add: parseDollar_def strip_dollar_comma Atoi_def ParseInt_def)
  have d: "?strip w = ns @ c # rest
        \<and> list_all is_digit ns \<and> dec_val ns \<le> maxUint64 \<and> \<not> is_digit c
        \<and> (ns \<noteq> [] \<or> (c \<noteq> CHR ''+'' \<and> c \<noteq> CHR ''-''))
      \<longrightarrow> parseDollar w = 0"
    using Atoi_non_digit [of ns c rest] by (auto simp: parseDollar_def strip_dollar_comma)
  show ?thesis using a b c d by blast
qed

text \<open>
  The price \<^verbatim>\<open>$1,000\<close> is 1000; the cells \<^verbatim>\<open>N/A\<close>, \<^verbatim>\<open>$\<close> and \<^verbatim>\<open>$12.50\<close> are 0.
\<close>

theorem parseDollar_strips_and_defaults_witness:
  "sint (parseDollar ''$1,000'') = 1000 \<and> parseDollar ''N/A'' = 0 \<and> parseDollar ''$'' = 0
   \<and> parseDollar ''$12.50'' = 0"
  using parseDollar_strips_and_defaults [of "''1000''" "''$1,000''" "''N/A''" "''$''" "''$12.50''"
      "''12''" "CHR ''.''" "''50''"]
  by (simp add: dec_val_def is_digit_def digit_val_def Atoi_def ParseInt_def ParseUint_def
      Let_def maxUint64_def)

lemma Split_nonempty: "Split s sep \<noteq> []"
  by (induction s) (auto split: list.splits)

text \<open>\<open>Split\<close> gives one field more than there are separators.\<close>

lemma length_Split: "length (Split s sep) = Suc (length (filter (\<lambda>c. c = sep) s))"
proof (induction s)
  case Nil
  show ?case by simp
next
  case (Cons c cs)
  then show ?case using Split_nonempty [of cs sep] by (auto split: list.splits)
qed

lemma Split_no_sep: "sep \<notin> set s \<Longrightarrow> Split s sep = [s]"
  by (induction s) auto

lemma Split_two: "sep \<notin> set l \<Longrightarrow> sep \<notin> set r \<Longrightarrow> Split (l @ sep # r) sep = [l, r]"
  by (induction l) (auto simp: Split_no_sep)

text \<open>
  C7. Odds parsing splits at the colons. With one colon, the result is the value that
  \<^verbatim>\<open>strconv.ParseFloat\<close> gives for the right-hand side, whatever stands on the left: for
  \<^verbatim>\<open>1:X\<close> with \<open>X\<close> parsed as the float \<open>v\<close> it is \<open>v\<close>. A string whose number of
  colons is not one gives 0.0, and so does a right-hand side that \<^verbatim>\<open>ParseFloat\<close>
  rejects as malformed (a syntax error, for which it returns 0).
\<close>

theorem parseOdds_right_of_colon:
  "(CHR '':'' \<notin> set l \<and> CHR '':'' \<notin> set x
      \<longrightarrow> parseOdds ops (l @ CHR '':'' # x) = value_of ops (ParseFloat ops x))
   \<and> (CHR '':'' \<notin> set x \<and> ParseFloat ops x = Parsed v
      \<longrightarrow> parseOdds ops (''1:'' @ x) = v)
   \<and> (length (filter (\<lambda>c. c = CHR '':'') s) \<noteq> 1 \<longrightarrow> parseOdds ops s = f_zero ops)
   \<and> (CHR '':'' \<notin> set y \<and> ParseFloat ops y = SyntaxError
      \<longrightarrow> parseOdds ops (''1:'' @ y) = f_zero ops)"
proof (intro conjI impI)
  assume "CHR '':'' \<notin> set l \<and> CHR '':'' \<notin> set x"
  then show "parseOdds ops (l @ CHR '':'' # x) = value_of ops (ParseFloat ops x)"
    by (simp add: parseOdds_def Split_two)
next
  assume "CHR '':'' \<notin> set x \<and> ParseFloat ops x = Parsed v"
  then show "parseOdds ops (''1:'' @ x) = v"
    using Split_two [of "CHR '':''" "''1''" x] by (simp add: parseOdds_def value_of_def)
next
  assume "length (filter (\<lambda>c. c = CHR '':'') s) \<noteq> 1"
  then show "parseOdds ops s = f_zero ops"
    by (simp add: parseOdds_def length_Split)
next
  assume "CHR '':'' \<notin> set y \<and> ParseFloat ops y = SyntaxError"
  then show "parseOdds ops (''1:'' @ y) = f_zero ops"
    using Split_two [of "CHR '':''" "''1''" y] by (simp add: parseOdds_def value_of_def)
qed

text \<open>
  In exact arithmetic \<^verbatim>\<open>1:3.50\<close> is 3.5; \<^verbatim>\<open>3.50\<close> (no colon), \<^verbatim>\<open>1:2:3\<close> (two
  colons) and \<^verbatim>\<open>1:n/a\<close> are 0.
\<close>

theorem parseOdds_right_of_colon_witness:
  "parseOdds exact_ops ''1:3.50'' = 7 / 2 \<and> parseOdds exact_ops ''3.50'' = 0
   \<and> parseOdds exact_ops ''1:2:3'' = 0 \<and> parseOdds exact_ops ''1:n/a'' = 0"
  using parseOdds_right_of_colon [of "''1''" "''3.50''" exact_ops "7 / 2" "''3.50''" "''n/a''"]
    parseOdds_right_of_colon [of "''1''" "''3.50''" exact_ops "7 / 2" "''1:2:3''" "''n/a''"]
  by (simp add: exact_ops_def parse_decimal_def dec_val_def is_digit_def digit_val_def
      value_of_def)

section \<open>Expected value: properties\<close>

text \<open>The loop of \<open>EV\<close> adds up, from the left, the terms of the tiers it does not skip.\<close>

lemma EV_loop_foldl:
  "EV_loop ops rt acc ps =
   foldl (f_add ops) acc
     (map (\<lambda>p. f_mul ops (f_div ops (f_of_int ops (RemainingCount p)) (f_of_int ops rt))
                  (f_of_int ops (Value p)))
        (filter (\<lambda>p. 0 < sint (RemainingCount p) \<and> 0 < sint (Value p)) ps))"
  by (induction ps arbitrary: acc) (auto simp: Let_def)

lemma RemainingTickets_lucky: "RemainingTickets exact_ops lucky_game = 35"
  by (simp add: RemainingTickets_def exact_ops_def lucky_game_def round_half_away_def
      truncate_to_int_def)

lemma expected_win_lucky: "expected_win exact_ops 35 (PrizeTiers lucky_game) = 200 / 7"
  by (simp add: expected_win_def exact_ops_def lucky_game_def)

text \<open>
  C3. For every game and every float64 arithmetic, \<open>EV\<close> is the reference definition
  \<open>EV_spec\<close>: the price when \<open>RemainingTickets\<close> (the rounded product of the odds and
  the total of remaining prizes) is 0, and otherwise the price minus the sum, over the
  tiers with a positive remaining count and a positive value, of
  \<open>remainingCount / RemainingTickets * value\<close>. In particular: with no remaining ticket
  the result is the price; with a total of remaining prizes of 0 it is the price, the
  rounded product of the odds and 0 being 0; and when the weighted sum is \<open>W\<close> and
  tickets remain, it is the price minus \<open>W\<close>.
\<close>

theorem EV_matches_spec:
  "EV ops g = EV_spec ops g
   \<and> (RemainingTickets ops g = 0 \<longrightarrow> EV ops g = f_of_int ops (Price g))
   \<and> (TotalRemainingPrizes g = 0
        \<and> f_to_int ops (f_round ops (f_mul ops (Odds g) (f_of_int ops 0))) = 0
      \<longrightarrow> EV ops g = f_of_int ops (Price g))
   \<and> (RemainingTickets ops g \<noteq> 0
        \<and> expected_win ops (RemainingTickets ops g) (PrizeTiers g) = W
      \<longrightarrow> EV ops g = f_sub ops (f_of_int ops (Price g)) W)"
proof -
  have eq: "EV ops g = EV_spec ops g"
    by (simp add: EV_def EV_spec_def expected_win_def EV_loop_foldl Let_def)
  show ?thesis
    by (simp add: eq) (auto simp: EV_spec_def RemainingTickets_def)
qed

text \<open>
  The example game (price 5, odds 3.5, ten remaining prizes of 100) has 35 remaining
  tickets and a weighted sum of 200/7, so an expected value of 5 - 200/7; with a total
  of remaining prizes of 0, and its tiers as they are, its expected value is its price.
\<close>

theorem EV_matches_spec_witness:
  "EV exact_ops lucky_game = - 165 / 7
   \<and> EV exact_ops (lucky_game\<lparr>TotalRemainingPrizes := 0\<rparr>) = 5"
  using EV_matches_spec [of exact_ops lucky_game "200 / 7"]
    EV_matches_spec [of exact_ops "lucky_game\<lparr>TotalRemainingPrizes := 0\<rparr>" 0]
    RemainingTickets_lucky expected_win_lucky
  by (simp add: exact_ops_def lucky_game_def round_half_away_def truncate_to_int_def)

section \<open>Sorting: properties\<close>

lemma mset_insert_by: "mset (insert_by lt x ys) = add_mset x (mset ys)"
  by (induction ys) simp_all

lemma mset_sort_Slice: "mset (sort_Slice lt xs) = mset xs"
  by (induction xs) (simp_all add: sort_Slice_def mset_insert_by)

lemma set_insert_by: "set (insert_by lt x ys) = insert x (set ys)"
  by (induction ys) auto

lemma sorted_insert_by:
  assumes asym: "\<And>a b. lt a b \<Longrightarrow> \<not> lt b a"
    and trans: "\<And>a b c. lt a b \<Longrightarrow> lt b c \<Longrightarrow> lt a c"
  shows "sorted_wrt (\<lambda>a b. \<not> lt b a) ys \<Longrightarrow> sorted_wrt (\<lambda>a b. \<not> lt b a) (insert_by lt x ys)"
proof (induction ys)
  case Nil
  show ?case by simp
next
  case (Cons y ys)
  show ?case
  proof (cases "lt x y")
    case True
    have "\<not> lt z x" if "z \<in> set ys" for z
    proof
      assume "lt z x"
      then have "lt z y" using True trans by blast
      moreover have "\<not> lt z y" using Cons.prems that by simp
      ultimately show False by contradiction
    qed
    then show ?thesis using True Cons.prems asym by auto
  next
    case False
    then show ?thesis using Cons by (auto simp: set_insert_by)
  qed
qed

lemma sorted_sort_Slice:
  assumes asym: "\<And>a b. lt a b \<Longrightarrow> \<not> lt b a"
    and trans: "\<And>a b c. lt a b \<Longrightarrow> lt b c \<Longrightarrow> lt a c"
  shows "sorted_wrt (\<lambda>a b. \<not> lt b a) (sort_Slice lt xs)"
proof (induction xs)
  case Nil
  show ?case by (simp add: sort_Slice_def)
next
  case (Cons x xs)
  have "sort_Slice lt (x # xs) = insert_by lt x (sort_Slice lt xs)" by (simp add: sort_Slice_def)
  then show ?case using sorted_insert_by [of lt, OF asym trans Cons.IH] by simp
qed

section \<open>The orchestrator: the invariant\<close>

lemma BuildGame_URL: "BuildGame ops tbls name url = Inr g \<Longrightarrow> URL g = url"
  by (auto simp: BuildGame_def Let_def split: if_splits sum.splits)

lemma task_URL: "task ops net l = (out, Inr g) \<Longrightarrow> URL g = l"
  by (auto simp: task_def dest: BuildGame_URL split: sum.splits prod.splits)

lemma main_inv_init: "main_inv ops net (main_init net)"
  by (simp add: main_inv_def main_init_def discovered_def split: sum.splits)

lemma main_inv_step:
  assumes inv: "main_inv ops net s" and st: "step ops net fs s s'"
  shows "main_inv ops net s'"
  using st
proof cases
  case (launch l ls)
  then show ?thesis using inv by (auto simp: main_inv_def)
next
  case launched_all
  then show ?thesis using inv by (auto simp: main_inv_def)
next
  case drain
  then show ?thesis using inv by (auto simp: main_inv_def)
next
  case drain_done
  then show ?thesis using inv by (auto simp: main_inv_def)
next
  case (report_ok rows out)
  then show ?thesis using inv by (auto simp: main_inv_def)
next
  case (report_fatal c)
  then show ?thesis using inv by (auto simp: main_inv_def)
next
  case (work xs l ys out g)
  then show ?thesis using inv task_URL [of ops net l out g] by (auto simp: main_inv_def)
next
  case (die xs l ys out c)
  then show ?thesis using inv by (auto simp: main_inv_def)
next
  case (release xs l ys)
  then show ?thesis using inv by (auto simp: main_inv_def)
qed

lemma reachable_inv: "reachable ops net fs s \<Longrightarrow> main_inv ops net s"
  by (induction rule: reachable.induct) (auto intro: main_inv_init main_inv_step)

section \<open>The example pages and runs evaluated\<close>

lemmas cell_defs = parseDollar_def parseInt_def Atoi_def ParseInt_def ParseUint_def ReplaceAll_def
  is_digit_def digit_val_def maxUint64_def ToLower_def lower_byte_def

lemma ExtractTables_lucky: "ExtractTables lucky_page = [fixture_meta, fixture_prizes prize_header]"
  by code_simp

lemma ExtractTables_gold:
  "ExtractTables gold_page =
     [[[''Ticket Price'', ''$10''], [''Overall Odds'', ''1:4.00''], [''Launch Date'', ''2024-06-01'']],
      [prize_header, [''$20'', ''100'', ''50'']]]"
  by code_simp

lemma urls_differ: "lucky_url \<noteq> startUrl" "gold_url \<noteq> startUrl" "gold_url \<noteq> lucky_url"
  by (simp_all add: lucky_url_def gold_url_def startUrl_def)

lemma name_lucky: "exctractGameName lucky_url = ''lucky 7s''"
  by code_simp

lemma name_gold: "exctractGameName gold_url = ''gold rush''"
  by code_simp

lemma BuildGame_lucky:
  "BuildGame exact_ops [fixture_meta, fixture_prizes prize_header] ''lucky 7s'' lucky_url = Inr lucky_game"
  by (simp add: BuildGame_def ParseMetaData_def ParsePrizes_def fixture_meta_def
      fixture_prizes_def prize_header_def parseOdds_def value_of_def cell_defs Let_def lucky_game_def
      exact_ops_def parse_decimal_def dec_val_def)

lemma BuildGame_gold:
  "BuildGame exact_ops
     [[[''Ticket Price'', ''$10''], [''Overall Odds'', ''1:4.00''], [''Launch Date'', ''2024-06-01'']],
      [prize_header, [''$20'', ''100'', ''50'']]] ''gold rush'' gold_url = Inr gold_game"
  by (simp add: BuildGame_def ParseMetaData_def ParsePrizes_def
      prize_header_def parseOdds_def value_of_def cell_defs Let_def gold_game_def
      exact_ops_def parse_decimal_def dec_val_def)

lemma task_lucky: "task exact_ops good_net lucky_url = ([], Inr lucky_game)"
  by (simp add: task_def ParseGame_def GamePage_def good_net_def urls_differ ExtractTables_lucky
      name_lucky BuildGame_lucky)

lemma task_gold: "task exact_ops good_net gold_url = ([], Inr gold_game)"
  by (simp add: task_def ParseGame_def GamePage_def good_net_def urls_differ ExtractTables_gold
      name_gold BuildGame_gold)

lemma GetLinks_fixture: "GetLinks fixture_page = [lucky_url, gold_url]"
  by (simp add: GetLinks_def GetLinks_token_def start_div_def end_div_def capture_def
      fixture_page_def StartTag_def EndTag_def Text_def attr_def)

lemma init_good:
  "(main_init good_net :: real main_state) =
     \<lparr>pc = Launching, todo = [lucky_url, gold_url], sem = 0, drained = 0, running = [],
      games = [], printed = [], written = []\<rparr>"
  by (simp add: main_init_def GetHTML_def good_net_def GetLinks_fixture)

lemma EV_lucky: "EV exact_ops lucky_game = - 165 / 7"
  by (simp add: EV_def RemainingTickets_def exact_ops_def lucky_game_def round_half_away_def
      truncate_to_int_def)

lemma EV_gold: "EV exact_ops gold_game = 5"
  by (simp add: EV_def RemainingTickets_def exact_ops_def gold_game_def round_half_away_def
      truncate_to_int_def)

lemma sort_example: "sort_Slice (by_EV exact_ops) [lucky_game, gold_game] = [gold_game, lucky_game]"
proof -
  have "by_EV exact_ops gold_game lucky_game" and "\<not> by_EV exact_ops lucky_game gold_game"
    by (simp_all add: by_EV_def EV_lucky EV_gold) (simp_all add: exact_ops_def)
  then show ?thesis by (simp add: sort_Slice_def)
qed

lemma report_example:
  "report exact_ops writable_fs [lucky_game, gold_game] =
     Inr ([csv_header, csv_row exact_ops gold_game, csv_row exact_ops lucky_game],
          [''Data written to mslotto_games.csv''])"
  by (simp add: report_def WriteCSV_def writable_fs_def sort_example)

lemma drain_many:
  "reachable ops net fs s \<Longrightarrow> pc s = Draining \<Longrightarrow> sem s + k \<le> cap_sem \<Longrightarrow>
   drained s + k \<le> cap_sem \<Longrightarrow>
   reachable ops net fs (s\<lparr>sem := sem s + k, drained := drained s + k\<rparr>)"
proof (induction k)
  case 0
  then show ?case by simp
next
  case (Suc k)
  let ?s = "s\<lparr>sem := sem s + k, drained := drained s + k\<rparr>"
  have r: "reachable ops net fs ?s" using Suc by simp
  have "step ops net fs ?s (?s\<lparr>sem := sem ?s + 1, drained := drained ?s + 1\<rparr>)"
    using Suc.prems by (intro step.drain) simp_all
  then have "reachable ops net fs (?s\<lparr>sem := sem ?s + 1, drained := drained ?s + 1\<rparr>)"
    using r by (rule reachable.next_step [rotated])
  then show ?case by simp
qed

lemma reachable_both_working: "reachable exact_ops good_net writable_fs both_working"
proof -
  let ?R = "reachable exact_ops good_net writable_fs"
  have r0: "?R \<lparr>pc = Launching, todo = [lucky_url, gold_url], sem = 0, drained = 0, running = [],
      games = [], printed = [], written = []\<rparr>"
    using reachable.start [of exact_ops good_net writable_fs] by (simp add: init_good)
  have r1: "?R \<lparr>pc = Launching, todo = [gold_url], sem = 1, drained = 0,
      running = [(lucky_url, Working)], games = [], printed = [], written = []\<rparr>"
    using reachable.next_step [OF r0 step.launch [where l = lucky_url and ls = "[gold_url]"]]
    by (simp add: cap_sem_def)
  show ?thesis
    using reachable.next_step [OF r1 step.launch [where l = gold_url and ls = "[]"]]
    by (simp add: cap_sem_def both_working_def numeral_2_eq_2)
qed

lemma reachable_report_written: "reachable exact_ops good_net writable_fs report_written"
proof -
  let ?R = "reachable exact_ops good_net writable_fs"
  have r2: "?R \<lparr>pc = Launching, todo = [], sem = 2, drained = 0,
      running = [(lucky_url, Working), (gold_url, Working)], games = [], printed = [],
      written = []\<rparr>"
    using reachable_both_working by (simp add: both_working_def)
  have r3: "?R \<lparr>pc = Launching, todo = [], sem = 2, drained = 0,
      running = [(lucky_url, Appended), (gold_url, Working)], games = [lucky_game], printed = [],
      written = []\<rparr>"
    using reachable.next_step [OF r2 step.work [where xs = "[]" and l = lucky_url
          and ys = "[(gold_url, Working)]", OF _ _ task_lucky]]
    by (simp add: alive_def)
  have r4: "?R \<lparr>pc = Launching, todo = [], sem = 2, drained = 0,
      running = [(lucky_url, Appended), (gold_url, Appended)], games = [lucky_game, gold_game],
      printed = [], written = []\<rparr>"
    using reachable.next_step [OF r3 step.work [where xs = "[(lucky_url, Appended)]"
          and l = gold_url and ys = "[]", OF _ _ task_gold]]
    by (simp add: alive_def)
  have r5: "?R \<lparr>pc = Launching, todo = [], sem = 1, drained = 0,
      running = [(gold_url, Appended)], games = [lucky_game, gold_game],
      printed = [], written = []\<rparr>"
    using reachable.next_step [OF r4 step.release [where xs = "[]" and l = lucky_url
          and ys = "[(gold_url, Appended)]"]]
    by (simp add: alive_def)
  have r6: "?R \<lparr>pc = Launching, todo = [], sem = 0, drained = 0,
      running = [], games = [lucky_game, gold_game], printed = [], written = []\<rparr>"
    using reachable.next_step [OF r5 step.release [where xs = "[]" and l = gold_url
          and ys = "[]"]]
    by (simp add: alive_def)
  have r7: "?R \<lparr>pc = Draining, todo = [], sem = 0, drained = 0,
      running = [], games = [lucky_game, gold_game], printed = [], written = []\<rparr>"
    using reachable.next_step [OF r6 step.launched_all] by simp
  have r8: "?R \<lparr>pc = Draining, todo = [], sem = 75, drained = 75,
      running = [], games = [lucky_game, gold_game], printed = [], written = []\<rparr>"
    using drain_many [OF r7, of 75] by (simp add: cap_sem_def)
  have r9: "?R \<lparr>pc = Sorting, todo = [], sem = 75, drained = 75,
      running = [], games = [lucky_game, gold_game], printed = [], written = []\<rparr>"
    using reachable.next_step [OF r8 step.drain_done] by (simp add: cap_sem_def)
  show ?thesis
    using reachable.next_step [OF r9 step.report_ok [where rows = "[csv_header, csv_row exact_ops gold_game, csv_row exact_ops lucky_game]"
       and out = "[''Data written to mslotto_games.csv'']"]]
    by (simp add: report_example report_written_def)
qed

section \<open>Building a game: properties\<close>

lemma parse_350: "ParseFloat exact_ops ''3.50'' = Parsed (7 / 2)"
  by (simp add: exact_ops_def parse_decimal_def dec_val_def is_digit_def digit_val_def)

text \<open>
  C4. From the metadata table \<^verbatim>\<open>[["Ticket Price","$5"],["Overall Odds","1:3.50"],
  ["Launch Date","2023-01-01"]]\<close> and the prize table \<^verbatim>\<open>[header,["$100","50","10"],
  ["2nd Chance","5","5"]]\<close>, whatever the header row, the name and the URL,
  \<open>BuildGame\<close> builds the game with price 5, the odds that \<^verbatim>\<open>ParseFloat\<close> reads
  from \<^verbatim>\<open>3.50\<close>, launch date \<^verbatim>\<open>2023-01-01\<close>, the one tier \<open>{100, 50, 10}\<close>, the
  row \<^verbatim>\<open>2nd Chance\<close> being skipped through the lower-cased first cell, and totals 50
  and 10.
\<close>

theorem BuildGame_fixture:
  "ParseFloat ops ''3.50'' = Parsed v \<Longrightarrow>
   BuildGame ops [fixture_meta, fixture_prizes header] name url =
     Inr \<lparr>Name = name, Price = 5, Odds = v, LaunchDate = ''2023-01-01'', GameNumber = 0,
          PrizeTiers = [\<lparr>Value = 100, OriginalCount = 50, RemainingCount = 10\<rparr>],
          TotalOriginalPrizes = 50, TotalRemainingPrizes = 10, URL = url\<rparr>"
  by (simp add: BuildGame_def ParseMetaData_def ParsePrizes_def fixture_meta_def
      fixture_prizes_def parseOdds_def value_of_def cell_defs Let_def)

text \<open>In exact arithmetic the odds are 3.5: the game built is the example game.\<close>

theorem BuildGame_fixture_witness:
  "BuildGame exact_ops [fixture_meta, fixture_prizes [''Prize'', ''Total'', ''Remaining'']]
     ''lucky 7s'' lucky_url = Inr lucky_game"
  using BuildGame_fixture [OF parse_350, of "[''Prize'', ''Total'', ''Remaining'']" "''lucky 7s''" lucky_url]
  by (simp add: lucky_game_def)

lemma totals_loop_sums:
  "totals_loop (a, b) ps =
     (a + sum_list (map OriginalCount ps), b + sum_list (map RemainingCount ps))"
  by (induction ps arbitrary: a b) (simp_all add: add.assoc)

lemma BuildGame_totals:
  "BuildGame ops tbls name url = Inr g \<Longrightarrow>
   TotalOriginalPrizes g = sum_list (map OriginalCount (PrizeTiers g))
   \<and> TotalRemainingPrizes g = sum_list (map RemainingCount (PrizeTiers g))"
  by (auto simp: BuildGame_def Let_def totals_loop_sums split: if_splits sum.splits)

lemma task_totals:
  "task ops net l = (out, Inr g) \<Longrightarrow>
   TotalOriginalPrizes g = sum_list (map OriginalCount (PrizeTiers g))
   \<and> TotalRemainingPrizes g = sum_list (map RemainingCount (PrizeTiers g))"
  by (auto simp: task_def dest: BuildGame_totals split: sum.splits prod.splits)

text \<open>
  C9. A game that \<open>BuildGame\<close> builds has, as its two totals, the sums (in the
  arithmetic of \<^verbatim>\<open>int\<close>) of the original counts and of the remaining counts of its
  tiers. Nothing changes them afterwards: in every state the orchestrator reaches, every
  game of the shared collection still has them, and sorting only permutes the collection.
\<close>

theorem totals_are_sums_of_tiers:
  "(BuildGame ops tbls name url = Inr g \<longrightarrow>
      TotalOriginalPrizes g = sum_list (map OriginalCount (PrizeTiers g))
      \<and> TotalRemainingPrizes g = sum_list (map RemainingCount (PrizeTiers g)))
   \<and> (reachable ops net fs s \<and> h \<in> set (games s) \<longrightarrow>
      TotalOriginalPrizes h = sum_list (map OriginalCount (PrizeTiers h))
      \<and> TotalRemainingPrizes h = sum_list (map RemainingCount (PrizeTiers h)))
   \<and> mset (sort_Slice lt gs) = mset gs"
proof -
  have built: "BuildGame ops tbls name url = Inr g \<longrightarrow>
      TotalOriginalPrizes g = sum_list (map OriginalCount (PrizeTiers g))
      \<and> TotalRemainingPrizes g = sum_list (map RemainingCount (PrizeTiers g))"
    using BuildGame_totals [of ops tbls name url g] by blast
  have kept: "reachable ops net fs s \<and> h \<in> set (games s) \<longrightarrow>
      TotalOriginalPrizes h = sum_list (map OriginalCount (PrizeTiers h))
      \<and> TotalRemainingPrizes h = sum_list (map RemainingCount (PrizeTiers h))"
  proof
    assume a: "reachable ops net fs s \<and> h \<in> set (games s)"
    then have "main_inv ops net s" using reachable_inv [of ops net fs s] by blast
    then obtain out where "task ops net (URL h) = (out, Inr h)"
      using a by (auto simp: main_inv_def list_all_iff)
    then show "TotalOriginalPrizes h = sum_list (map OriginalCount (PrizeTiers h))
        \<and> TotalRemainingPrizes h = sum_list (map RemainingCount (PrizeTiers h))"
      by (rule task_totals)
  qed
  show ?thesis using built kept mset_sort_Slice [of lt gs] by blast
qed

text \<open>The example game as built, and the second game in the collection of the finished run.\<close>

theorem totals_are_sums_of_tiers_witness:
  "TotalOriginalPrizes lucky_game = sum_list (map OriginalCount (PrizeTiers lucky_game))
   \<and> TotalRemainingPrizes lucky_game = sum_list (map RemainingCount (PrizeTiers lucky_game))
   \<and> gold_game \<in> set (games report_written)
   \<and> TotalOriginalPrizes gold_game = sum_list (map OriginalCount (PrizeTiers gold_game))
   \<and> TotalRemainingPrizes gold_game = sum_list (map RemainingCount (PrizeTiers gold_game))"
  using totals_are_sums_of_tiers [of exact_ops "[fixture_meta, fixture_prizes prize_header]"
      "''lucky 7s''" lucky_url lucky_game good_net writable_fs report_written gold_game
      "by_EV exact_ops" "games report_written"]
    BuildGame_lucky reachable_report_written
  by (simp add: report_written_def)

section \<open>The report: properties\<close>

text \<open>
  C6. The rows of the report follow the header in the order of the sorted collection,
  each with the formatted \<open>EV\<close> of its game in the ninth column, and in that order no
  game has a greater \<open>EV\<close> than a game before it: the rows are non-increasing in
  \<open>EV\<close>. The sorted collection holds the games of the collection, each once. The
  comparison \<^verbatim>\<open>>\<close> of float64 is taken to be a strict weak ordering of the values
  compared (asymmetric, transitive, and transitive in its negation), which is what
  \<^verbatim>\<open>sort.Slice\<close> requires of its comparison and what \<^verbatim>\<open>>\<close> is on the float64 values
  other than NaN.
\<close>

theorem report_rows_descending_EV:
  assumes asym: "\<And>a b. f_gt ops a b \<Longrightarrow> \<not> f_gt ops b a"
    and trans: "\<And>a b c. f_gt ops a b \<Longrightarrow> f_gt ops b c \<Longrightarrow> f_gt ops a c"
    and negtrans: "\<And>a b c. \<not> f_gt ops a b \<Longrightarrow> \<not> f_gt ops b c \<Longrightarrow> \<not> f_gt ops a c"
    and rep: "report ops fs gs = Inr (rows, out)"
  shows "rows = csv_header # map (csv_row ops) (sort_Slice (by_EV ops) gs)
     \<and> mset (sort_Slice (by_EV ops) gs) = mset gs
     \<and> sorted_wrt (\<lambda>a b. \<not> f_gt ops (EV ops b) (EV ops a)) (sort_Slice (by_EV ops) gs)
     \<and> (\<forall>g. csv_row ops g ! 8 = Sprintf_2f ops (EV ops g))"
proof -
  have rows: "rows = csv_header # map (csv_row ops) (sort_Slice (by_EV ops) gs)"
    using rep by (auto simp: report_def WriteCSV_def split: option.splits)
  have a: "\<And>a b. by_EV ops a b \<Longrightarrow> \<not> by_EV ops b a"
    using asym by (simp add: by_EV_def)
  have t: "\<And>a b c. by_EV ops a b \<Longrightarrow> by_EV ops b c \<Longrightarrow> by_EV ops a c"
    using trans unfolding by_EV_def by blast
  have "sorted_wrt (\<lambda>a b. \<not> by_EV ops b a) (sort_Slice (by_EV ops) gs)"
    by (rule sorted_sort_Slice [of "by_EV ops", OF a t])
  then have srt: "sorted_wrt (\<lambda>a b. \<not> f_gt ops (EV ops b) (EV ops a)) (sort_Slice (by_EV ops) gs)"
    by (simp add: by_EV_def)
  have col: "\<forall>g. csv_row ops g ! 8 = Sprintf_2f ops (EV ops g)"
    by (simp add: csv_row_def Let_def)
  show ?thesis using rows srt col by (simp add: mset_sort_Slice)
qed

section \<open>Link discovery: properties\<close>

lemma divDepth_never_counts:
  "(inActiveSession st \<and> divDepth st = 1) \<or> (\<not> inActiveSession st \<and> divDepth st = 0) \<Longrightarrow>
   (inActiveSession (GetLinks_token st t) \<and> divDepth (GetLinks_token st t) = 1)
   \<or> (\<not> inActiveSession (GetLinks_token st t) \<and> divDepth (GetLinks_token st t) = 0)"
  by (auto simp: GetLinks_token_def start_div_def end_div_def capture_def Let_def)

lemma links_spec_fixture: "links_spec 0 fixture_page = [lucky_url, gold_url]"
  by (simp add: fixture_page_def StartTag_def EndTag_def Text_def attr_def)

text \<open>
  C2. The claim asks that anchors inside descendant containers are captured and that
  capturing stops only at the closing tag of the marked container. On the page
  \<open>nested_page\<close>, where the first game link sits in a \<^verbatim>\<open>div\<close> of its own inside the
  marked container, \<open>GetLinks\<close> stops at that inner closing tag and returns the first
  link only; the discoverer of the specification returns both. The counter
  \<^verbatim>\<open>divDepth\<close> is never raised above 1 (\<open>divDepth_never_counts\<close>).
\<close>

theorem GetLinks_leaves_at_nested_closing_div:
  "GetLinks nested_page = [lucky_url] \<and> links_spec 0 nested_page = [lucky_url, gold_url]"
  by (simp add: GetLinks_def GetLinks_token_def start_div_def end_div_def capture_def
      nested_page_def StartTag_def EndTag_def Text_def attr_def)

section \<open>Fetch failures\<close>



lemma task_TransportError:
  "net l = TransportError e \<Longrightarrow> task ops net l = ([], Inl (Fatal e))"
  by (simp add: task_def ParseGame_def GamePage_def)



section \<open>The example runs: the claims at work\<close>

lemma csv_row_lucky:
  "csv_row exact_ops lucky_game =
     [''lucky 7s'', ''5'', ''1:3.50'', ''2023-01-01'', ''50'', ''10'', ''175'', ''35'', ''-23.57'',
      lucky_url]"
  by (simp add: csv_row_def EV_def RemainingTickets_def OriginalTickets_def exact_ops_def
      lucky_game_def round_half_away_def truncate_to_int_def Itoa_def digits_of.simps
      format_2f_def)

lemma csv_row_gold:
  "csv_row exact_ops gold_game =
     [''gold rush'', ''10'', ''1:4.00'', ''2024-06-01'', ''100'', ''50'', ''400'', ''200'', ''5.00'',
      gold_url]"
  by (simp add: csv_row_def EV_def RemainingTickets_def OriginalTickets_def exact_ops_def
      gold_game_def round_half_away_def truncate_to_int_def Itoa_def digits_of.simps
      format_2f_def)

text \<open>
  The two example games are collected in the order lucky 7s, gold rush; the report has
  gold rush (EV 5.00) before lucky 7s (EV -23.57).
\<close>

theorem report_rows_descending_EV_witness:
  "report exact_ops writable_fs [lucky_game, gold_game] =
     Inr ([csv_header, csv_row exact_ops gold_game, csv_row exact_ops lucky_game],
          [''Data written to mslotto_games.csv''])
   \<and> sorted_wrt (\<lambda>a b. EV exact_ops b \<le> EV exact_ops a)
        (sort_Slice (by_EV exact_ops) [lucky_game, gold_game])
   \<and> csv_row exact_ops gold_game ! 8 = ''5.00'' \<and> csv_row exact_ops lucky_game ! 8 = ''-23.57''"
proof -
  have asym: "\<And>a b. f_gt exact_ops a b \<Longrightarrow> \<not> f_gt exact_ops b a"
    by (simp add: exact_ops_def)
  have trans: "\<And>a b c. f_gt exact_ops a b \<Longrightarrow> f_gt exact_ops b c \<Longrightarrow> f_gt exact_ops a c"
    by (simp add: exact_ops_def)
  have negtrans:
    "\<And>a b c. \<not> f_gt exact_ops a b \<Longrightarrow> \<not> f_gt exact_ops b c \<Longrightarrow> \<not> f_gt exact_ops a c"
    by (simp add: exact_ops_def)
  have gt: "\<And>a b. (\<not> f_gt exact_ops b a) = (b \<le> a)"
    by (auto simp: exact_ops_def)
  show ?thesis
    using report_rows_descending_EV [of exact_ops writable_fs "[lucky_game, gold_game]"
        "[csv_header, csv_row exact_ops gold_game, csv_row exact_ops lucky_game]"
        "[''Data written to mslotto_games.csv'']", OF asym trans negtrans report_example]
    by (simp add: gt report_example csv_row_lucky csv_row_gold)
qed

lemma GetHTML_refusing: "GetHTML refusing_net = Inr fixture_page"
  by (simp add: GetHTML_def refusing_net_def)


lemma reachable_died_connecting: "reachable exact_ops refusing_net writable_fs died_connecting"
proof -
  let ?R = "reachable exact_ops refusing_net writable_fs"
  have t: "task exact_ops refusing_net lucky_url = ([], Inl (Fatal ''connection refused''))"
    by (rule task_TransportError) (simp add: refusing_net_def urls_differ)
  have r0: "?R \<lparr>pc = Launching, todo = [lucky_url, gold_url], sem = 0, drained = 0, running = [],
      games = [], printed = [], written = []\<rparr>"
    using reachable.start [of exact_ops refusing_net writable_fs]
    by (simp add: main_init_def GetHTML_refusing GetLinks_fixture)
  have r1: "?R \<lparr>pc = Launching, todo = [gold_url], sem = 1, drained = 0,
      running = [(lucky_url, Working)], games = [], printed = [], written = []\<rparr>"
    using reachable.next_step [OF r0 step.launch [where l = lucky_url and ls = "[gold_url]"]]
    by (simp add: cap_sem_def)
  show ?thesis
    using reachable.next_step [OF r1 step.die [where xs = "[]" and l = lucky_url and ys = "[]",
          OF _ _ t]]
    by (simp add: alive_def died_connecting_def)
qed



section \<open>The limiter\<close>



section \<open>What a failed fetch does\<close>

text \<open>
  C1, as amended. A game link whose HTTP GET fails at transport level ends the process
  at once through \<^verbatim>\<open>log.Fatal\<close>: \<open>GamePage\<close> does not return, the goroutine of the
  link dies with the error as its message, and with it the process, as it does when the
  GET of the landing page fails. A link whose GET succeeds and whose body cannot be read
  has the failure printed by \<open>ParseGame\<close>, which returns no tables.
\<close>

theorem fetch_failure_outcomes:
  "(net l = TransportError e
      \<longrightarrow> GamePage net l = Inl (Fatal e)
        \<and> task (ops :: 'f float64_ops) net l = ([], Inl (Fatal e)))
   \<and> (net l = TransportError e \<and> alive s \<and> running s = xs @ (l, Working) # ys
      \<longrightarrow> step ops net fs s (s\<lparr>pc := Crashed (Fatal e), printed := printed s @ []\<rparr>))
   \<and> (net startUrl = TransportError e \<longrightarrow> pc (main_init net :: 'f main_state) = Crashed (Fatal e))
   \<and> (net l = ReadError e
      \<longrightarrow> ParseGame net l = Inr ([''Error fetching game page: '' @ l @ '' '' @ e], []))"
proof -
  have a: "net l = TransportError e
      \<longrightarrow> GamePage net l = Inl (Fatal e) \<and> task ops net l = ([], Inl (Fatal e))"
    using task_TransportError [of net l e ops] by (simp add: GamePage_def)
  have b: "net l = TransportError e \<and> alive s \<and> running s = xs @ (l, Working) # ys
      \<longrightarrow> step ops net fs s (s\<lparr>pc := Crashed (Fatal e), printed := printed s @ []\<rparr>)"
    using step.die [of s xs l ys ops net "[]" "Fatal e" fs] task_TransportError [of net l e ops]
    by blast
  have c: "net startUrl = TransportError e
      \<longrightarrow> pc (main_init net :: 'f main_state) = Crashed (Fatal e)"
    by (simp add: main_init_def GetHTML_def)
  have d: "net l = ReadError e
      \<longrightarrow> ParseGame net l = Inr ([''Error fetching game page: '' @ l @ '' '' @ e], [])"
    by (simp add: ParseGame_def GamePage_def)
  show ?thesis using a b c d by blast
qed

text \<open>
  A refused connection to a game page, a landing page that cannot be reached, and a body
  that ends early.
\<close>

theorem fetch_failure_outcomes_witness:
  "task exact_ops refusing_net lucky_url = ([], Inl (Fatal ''connection refused''))
   \<and> pc (main_init (\<lambda>url. TransportError ''no route to host'') :: real main_state)
       = Crashed (Fatal ''no route to host'')
   \<and> ParseGame truncating_net lucky_url =
       Inr ([''Error fetching game page: '' @ lucky_url @ '' unexpected EOF''], [])"
proof -
  have n: "refusing_net lucky_url = TransportError ''connection refused''"
    by (simp add: refusing_net_def urls_differ)
  have m: "truncating_net lucky_url = ReadError ''unexpected EOF''"
    by (simp add: truncating_net_def urls_differ)
  show ?thesis
    using fetch_failure_outcomes [of refusing_net lucky_url "''connection refused''" exact_ops
        died_connecting "[]" "[]" writable_fs]
      fetch_failure_outcomes [of "\<lambda>url. TransportError ''no route to host''" lucky_url
        "''no route to host''" exact_ops died_connecting "[]" "[]" writable_fs]
      fetch_failure_outcomes [of truncating_net lucky_url "''unexpected EOF''" exact_ops
        died_connecting "[]" "[]" writable_fs]
      n m
    by simp
qed

text \<open>
  C1 as stated fails: on the network \<open>refusing_net\<close> the landing page is fetched and
  gives two links, the GET of the first is refused, and the run ends there in
  \<^verbatim>\<open>log.Fatal\<close>, with the second link never launched and no report written.
\<close>

theorem link_fetch_failure_aborts_counterexample:
  "GetHTML refusing_net = Inr fixture_page
   \<and> lucky_url \<in> set (discovered refusing_net)
   \<and> refusing_net lucky_url = TransportError ''connection refused''
   \<and> reachable exact_ops refusing_net writable_fs died_connecting
   \<and> pc died_connecting = Crashed (Fatal ''connection refused'')
   \<and> todo died_connecting = [gold_url] \<and> games died_connecting = []"
  using reachable_died_connecting
  by (simp add: GetHTML_refusing discovered_def GetLinks_fixture refusing_net_def urls_differ
      died_connecting_def)

end
